theory Spec2Isabelle
  imports Main "HOL-Library.Sublist"
begin

section \<open>The host-inventory probe of \<^verbatim>\<open>cmd/System_agent/main.go\<close>\<close>

text \<open>
  The program reads \<^verbatim>\<open>/etc/os-release\<close>, chooses a package backend from its
  \<^verbatim>\<open>ID\<close> field, runs one package query, parses its output into packages, reads
  every configuration file the packages declare and prints the result as JSON.

  Go strings are byte sequences: a \<^typ>\<open>string\<close> here is the list of the bytes. A Go
  \<^verbatim>\<open>error\<close> is only ever formatted with \<^verbatim>\<open>%v\<close>, so an error is its message.
\<close>

type_synonym error = string

subsection \<open>The functions of package \<^verbatim>\<open>strings\<close> the program calls\<close>

definition newline :: char where
  "newline = CHR 0x0A"

definition tab :: char where
  "tab = CHR 0x09"

definition space :: char where
  "space = CHR '' ''"

definition equals :: char where
  "equals = CHR ''=''"

definition quote :: char where
  "quote = CHR 0x22"

definition slash :: char where
  "slash = CHR ''/''"

text \<open>
  \<^verbatim>\<open>strings.Split(s, sep)\<close> for a separator of one byte, which is what every call of
  the program passes. As in the library (\<^verbatim>\<open>genSplit\<close>), the text before the first
  separator is a field and the rest is split in the same way; the text after the last
  separator is the last field, so the result is never empty and \<^verbatim>\<open>Split("", sep)\<close> is
  the list of one empty string.
\<close>

function Split :: "string \<Rightarrow> char \<Rightarrow> string list" where
  "Split s sep =
     (if sep \<in> set s
      then takeWhile (\<lambda>c. c \<noteq> sep) s # Split (tl (dropWhile (\<lambda>c. c \<noteq> sep) s)) sep
      else [s])"
  by pat_completeness auto
termination
proof (relation "measure (\<lambda>(s, sep). length s)")
  show "wf (measure (\<lambda>(s, sep). length s))"
    by simp
next
  fix s :: string and sep :: char
  assume "sep \<in> set s"
  then have "dropWhile (\<lambda>c. c \<noteq> sep) s \<noteq> []"
    by (auto simp: dropWhile_eq_Nil_conv)
  then have "length (tl (dropWhile (\<lambda>c. c \<noteq> sep) s)) < length (dropWhile (\<lambda>c. c \<noteq> sep) s)"
    by simp
  also have "\<dots> \<le> length s"
    by (rule length_dropWhile_le)
  finally show "((tl (dropWhile (\<lambda>c. c \<noteq> sep) s), sep), (s, sep)) \<in> measure (\<lambda>(s, sep). length s)"
    by simp
qed

declare Split.simps [simp del]

text \<open>
  \<^verbatim>\<open>strings.SplitN(s, sep, 2)\<close>: at most two fields, cut at the first separator.
\<close>

definition SplitN2 :: "string \<Rightarrow> char \<Rightarrow> string list" where
  "SplitN2 s sep =
     (if sep \<in> set s
      then [takeWhile (\<lambda>c. c \<noteq> sep) s, tl (dropWhile (\<lambda>c. c \<noteq> sep) s)]
      else [s])"

text \<open>
  \<^verbatim>\<open>strings.Trim(s, cutset)\<close> for a cutset of one byte: every leading and every
  trailing occurrence of the byte is removed.
\<close>

definition Trim :: "string \<Rightarrow> char \<Rightarrow> string" where
  "Trim s c = rev (dropWhile (\<lambda>x. x = c) (rev (dropWhile (\<lambda>x. x = c) s)))"

text \<open>
  \<^verbatim>\<open>strings.ToLower\<close> on the bytes: the letters A to Z become a to z. (On text that
  is not ASCII the library also maps the other letters of Unicode; none of them
  becomes a letter of the three tokens \<^verbatim>\<open>NewPackageManager\<close> looks for, and the bytes
  of their encodings are not ASCII, so the search below finds the same.)
\<close>

definition to_lower_char :: "char \<Rightarrow> char" where
  "to_lower_char c =
     (let n = (of_char c :: nat) in if 65 \<le> n \<and> n \<le> 90 then char_of (n + 32) else c)"

definition ToLower :: "string \<Rightarrow> string" where
  "ToLower s = map to_lower_char s"

text \<open>\<^verbatim>\<open>strings.Contains(s, substr)\<close>: \<open>substr\<close> starts at some position of \<open>s\<close>.\<close>

fun Contains :: "string \<Rightarrow> string \<Rightarrow> bool" where
  "Contains [] substr = (substr = [])"
| "Contains (c # s) substr = (prefix substr (c # s) \<or> Contains s substr)"

subsection \<open>The data model\<close>

record Package =
  Name :: string
  Version :: string
  ConfigFiles :: "string list"
  RequiredPackages :: "string list"

record ConfigFile =
  Path :: string
  Content :: string
  Modified :: string

record SystemInfo =
  OSRelease :: "string \<rightharpoonup> string"
  Packages :: "Package list"
  Configurations :: "string \<rightharpoonup> ConfigFile"

record OSDetector =
  osRelease :: "string \<rightharpoonup> string"

record PackageManager =
  pkgType :: string

record ConfigurationReader =
  rootDir :: string

record Agent =
  osDetector :: OSDetector
  pkgManager :: PackageManager
  configReader :: ConfigurationReader
  systemInfo :: SystemInfo

subsection \<open>The world outside the program\<close>

text \<open>
  Every call that leaves the program is recorded, in order, in a trace of events, and
  its result is given by the world. The file system is not the program's own: what a
  read or a stat returns may depend on the moment, which is the number of events
  before it.
\<close>

datatype stream = Stdout | Stderr

datatype event =
    ReadFile string
  | Stat string
  | Exec string "string list"
  | Write stream string

record world =
  read_file :: "nat \<Rightarrow> string \<Rightarrow> error + string"
  stat_modtime :: "nat \<Rightarrow> string \<Rightarrow> error + string"
  cmd_output :: "string \<Rightarrow> string list \<Rightarrow> string \<times> error option"
  MarshalIndent :: "SystemInfo \<Rightarrow> error + string"

text \<open>
  \<open>read_file w t p\<close> is \<^verbatim>\<open>ioutil.ReadFile(p)\<close> at moment \<open>t\<close>;
  \<open>stat_modtime w t p\<close> is \<^verbatim>\<open>os.Stat(p)\<close> at moment \<open>t\<close>, followed on success by
  \<^verbatim>\<open>ModTime().String()\<close>; \<open>cmd_output w name args\<close> is the pair that
  \<^verbatim>\<open>exec.Command(name, args...).Output()\<close> returns (the bytes of standard output,
  and the error when the command could not be started or exited with failure);
  \<open>MarshalIndent w v\<close> is \<^verbatim>\<open>json.MarshalIndent(v, "", "  ")\<close>.
\<close>

subsection \<open>Reading the distribution descriptor\<close>

fun osRelease_loop :: "(string \<rightharpoonup> string) \<Rightarrow> string list \<Rightarrow> (string \<rightharpoonup> string)" where
  "osRelease_loop m [] = m"
| "osRelease_loop m (line # lines) =
     (let parts = SplitN2 line equals in
      if length parts = 2
      then osRelease_loop (m(Trim (parts ! 0) quote \<mapsto> Trim (parts ! 1) quote)) lines
      else osRelease_loop m lines)"

definition NewOSDetector :: "world \<Rightarrow> event list \<Rightarrow> (error + OSDetector) \<times> event list" where
  "NewOSDetector w tr =
     (let tr1 = tr @ [ReadFile ''/etc/os-release''] in
      case read_file w (length tr) ''/etc/os-release'' of
        Inl err \<Rightarrow> (Inl (''failed to read os-release: '' @ err), tr1)
      | Inr content \<Rightarrow>
          (Inr \<lparr>osRelease = osRelease_loop Map.empty (Split content newline)\<rparr>, tr1))"

subsection \<open>Choosing the package backend\<close>

definition NewPackageManager :: "string \<Rightarrow> PackageManager" where
  "NewPackageManager osID =
     (if Contains (ToLower osID) ''rhel'' \<or>
         Contains (ToLower osID) ''centos'' \<or>
         Contains (ToLower osID) ''fedora''
      then \<lparr>pkgType = ''rpm''\<rparr>
      else \<lparr>pkgType = ''apt''\<rparr>)"

subsection \<open>Enumerating the packages\<close>

definition query_command :: "PackageManager \<Rightarrow> string \<times> string list" where
  "query_command pm =
     (if pkgType pm = ''rpm''
      then (''rpm'', [''-qa'', ''--queryformat'',
              ''%{NAME}'' @ [tab] @ ''%{VERSION}'' @ [tab] @ ''%{CONFIGFILES}'' @ [newline]])
      else (''dpkg-query'', [''-W'', ''-f'',
              ''${Package}'' @ [tab] @ ''${Version}'' @ [tab] @ ''${Conffiles}'' @ [newline]]))"

text \<open>The loop over the lines of the output; \<open>packages\<close> is the slice appended to.\<close>

fun packages_loop :: "Package list \<Rightarrow> string list \<Rightarrow> Package list" where
  "packages_loop packages [] = packages"
| "packages_loop packages (line # lines) =
     (if line = [] then packages_loop packages lines
      else
        (let parts = Split line tab in
         if length parts \<ge> 2
         then
           (let pkg = \<lparr>Name = parts ! 0, Version = parts ! 1,
                        ConfigFiles = [], RequiredPackages = []\<rparr>;
                pkg = (if length parts > 2
                       then pkg\<lparr>ConfigFiles := Split (parts ! 2) space\<rparr>
                       else pkg)
            in packages_loop (packages @ [pkg]) lines)
         else packages_loop packages lines))"

text \<open>
  The two results of the Go function are a pair: the packages (\<open>[]\<close> is the nil
  slice) and the error (\<open>None\<close> is nil).
\<close>

definition GetInstalledPackages ::
    "PackageManager \<Rightarrow> world \<Rightarrow> event list \<Rightarrow> (Package list \<times> error option) \<times> event list" where
  "GetInstalledPackages pm w tr =
     (let (name, args) = query_command pm;
          tr1 = tr @ [Exec name args] in
      case cmd_output w name args of
        (output, Some err) \<Rightarrow> (([], Some (''failed to query packages: '' @ err)), tr1)
      | (output, None) \<Rightarrow> ((packages_loop [] (Split output newline), None), tr1))"

subsection \<open>Reading one configuration file\<close>

text \<open>
  \<^verbatim>\<open>filepath.Join\<close> and \<^verbatim>\<open>filepath.Clean\<close> of the Go library, on Unix, on the
  elements of the path: empty elements and \<^verbatim>\<open>.\<close> are dropped, \<^verbatim>\<open>..\<close> removes the
  element before it, is dropped at the root, and is kept at the start of a relative
  path. \<open>out\<close> holds the elements written so far, the last one first.
\<close>

fun strings_Join :: "string list \<Rightarrow> char \<Rightarrow> string" where
  "strings_Join [] sep = []"
| "strings_Join [e] sep = e"
| "strings_Join (e # es) sep = e @ [sep] @ strings_Join es sep"

fun clean_elems :: "bool \<Rightarrow> string list \<Rightarrow> string list \<Rightarrow> string list" where
  "clean_elems rooted out [] = rev out"
| "clean_elems rooted out (e # es) =
     (if e = [] \<or> e = ''.'' then clean_elems rooted out es
      else if e = ''..'' then
        (if out \<noteq> [] \<and> hd out \<noteq> ''..'' then clean_elems rooted (tl out) es
         else if \<not> rooted then clean_elems rooted (''..'' # out) es
         else clean_elems rooted out es)
      else clean_elems rooted (e # out) es)"

definition Clean :: "string \<Rightarrow> string" where
  "Clean path =
     (if path = [] then ''.''
      else
        (let rooted = (hd path = slash);
             elems = clean_elems rooted [] (Split path slash) in
         if rooted then slash # strings_Join elems slash
         else if elems = [] then ''.''
         else strings_Join elems slash))"

definition Join :: "string list \<Rightarrow> string" where
  "Join elem =
     (case dropWhile (\<lambda>e. e = []) elem of
        [] \<Rightarrow> []
      | e # es \<Rightarrow> Clean (strings_Join (e # es) slash))"

definition NewConfigurationReader :: "string \<Rightarrow> ConfigurationReader" where
  "NewConfigurationReader dir = \<lparr>rootDir = dir\<rparr>"

definition ReadConfigFile ::
    "ConfigurationReader \<Rightarrow> world \<Rightarrow> event list \<Rightarrow> string \<Rightarrow> (error + ConfigFile) \<times> event list" where
  "ReadConfigFile cr w tr path =
     (let fullPath = Join [rootDir cr, path];
          tr1 = tr @ [ReadFile fullPath] in
      case read_file w (length tr) fullPath of
        Inl err \<Rightarrow> (Inl (''failed to read config file '' @ path @ '': '' @ err), tr1)
      | Inr content \<Rightarrow>
          (let tr2 = tr1 @ [Stat fullPath] in
           case stat_modtime w (length tr1) fullPath of
             Inl err \<Rightarrow> (Inl (''failed to get file info for '' @ path @ '': '' @ err), tr2)
           | Inr modified \<Rightarrow>
               (Inr \<lparr>Path = path, Content = content, Modified = modified\<rparr>, tr2)))"

subsection \<open>The agent\<close>

definition NewAgent :: "world \<Rightarrow> event list \<Rightarrow> (error + Agent) \<times> event list" where
  "NewAgent w tr =
     (case NewOSDetector w tr of
        (Inl err, tr1) \<Rightarrow> (Inl err, tr1)
      | (Inr det, tr1) \<Rightarrow>
          (Inr \<lparr>osDetector = det,
                pkgManager =
                  NewPackageManager (case osRelease det ''ID'' of None \<Rightarrow> [] | Some v \<Rightarrow> v),
                configReader = NewConfigurationReader ''/'',
                systemInfo =
                  \<lparr>OSRelease = Map.empty, Packages = [], Configurations = Map.empty\<rparr>\<rparr>,
           tr1))"

definition warning :: "string \<Rightarrow> error \<Rightarrow> event" where
  "warning configPath err =
     Write Stdout
       (''Warning: couldn'' @ [CHR 0x27] @ ''t read config '' @ configPath @ '': '' @ err @ [newline])"

text \<open>The inner loop, over the configuration files of one package.\<close>

fun config_loop ::
    "ConfigurationReader \<Rightarrow> world \<Rightarrow> (string \<rightharpoonup> ConfigFile) \<times> event list \<Rightarrow> string list \<Rightarrow>
     (string \<rightharpoonup> ConfigFile) \<times> event list" where
  "config_loop cr w (configs, tr) [] = (configs, tr)"
| "config_loop cr w (configs, tr) (configPath # rest) =
     (case ReadConfigFile cr w tr configPath of
        (Inl err, tr1) \<Rightarrow> config_loop cr w (configs, tr1 @ [warning configPath err]) rest
      | (Inr config, tr1) \<Rightarrow> config_loop cr w (configs(configPath \<mapsto> config), tr1) rest)"

text \<open>The outer loop, over the packages.\<close>

fun package_loop ::
    "ConfigurationReader \<Rightarrow> world \<Rightarrow> (string \<rightharpoonup> ConfigFile) \<times> event list \<Rightarrow> Package list \<Rightarrow>
     (string \<rightharpoonup> ConfigFile) \<times> event list" where
  "package_loop cr w st [] = st"
| "package_loop cr w st (pkg # pkgs) =
     package_loop cr w (config_loop cr w st (ConfigFiles pkg)) pkgs"

text \<open>
  \<^verbatim>\<open>GatherSystemInfo\<close> returns the error (\<open>None\<close> is nil), the agent with its
  \<open>systemInfo\<close> as the method left it, and the trace.
\<close>

definition GatherSystemInfo ::
    "Agent \<Rightarrow> world \<Rightarrow> event list \<Rightarrow> error option \<times> Agent \<times> event list" where
  "GatherSystemInfo a w tr =
     (let a1 = a\<lparr>systemInfo := (systemInfo a)\<lparr>OSRelease := osRelease (osDetector a)\<rparr>\<rparr> in
      case GetInstalledPackages (pkgManager a1) w tr of
        ((packages, Some err), tr1) \<Rightarrow> (Some err, a1, tr1)
      | ((packages, None), tr1) \<Rightarrow>
          (let a2 = a1\<lparr>systemInfo := (systemInfo a1)\<lparr>Packages := packages\<rparr>\<rparr>;
               (configs, tr2) = package_loop (configReader a2) w (Map.empty, tr1) packages
           in (None, a2\<lparr>systemInfo := (systemInfo a2)\<lparr>Configurations := configs\<rparr>\<rparr>, tr2)))"

text \<open>The exit code of the process and everything it did.\<close>

definition main :: "world \<Rightarrow> nat \<times> event list" where
  "main w =
     (case NewAgent w [] of
        (Inl err, tr1) \<Rightarrow>
          (1, tr1 @ [Write Stdout (''Failed to initialize agent: '' @ err @ [newline])])
      | (Inr agent, tr1) \<Rightarrow>
          (case GatherSystemInfo agent w tr1 of
             (Some err, agent1, tr2) \<Rightarrow>
               (1, tr2 @ [Write Stdout (''Failed to gather system info: '' @ err @ [newline])])
           | (None, agent1, tr2) \<Rightarrow>
               (case MarshalIndent w (systemInfo agent1) of
                  Inl err \<Rightarrow>
                    (1, tr2 @ [Write Stdout (''Failed to marshal system info: '' @ err @ [newline])])
                | Inr jsonData \<Rightarrow> (0, tr2 @ [Write Stdout (jsonData @ [newline])]))))"

subsection \<open>A world to run the program in\<close>

text \<open>
  An Ubuntu host with one package, \<^verbatim>\<open>foo\<close>, that declares two configuration files,
  of which only \<^verbatim>\<open>/etc/foo.conf\<close> exists.
\<close>

definition example_descriptor :: string where
  "example_descriptor = ''ID='' @ [quote] @ ''ubuntu'' @ [quote] @ [newline]"

definition example_output :: string where
  "example_output =
     ''foo'' @ [tab] @ ''1.0'' @ [tab] @ ''/etc/foo.conf /etc/foo2.conf'' @ [newline]"

definition example_world :: world where
  "example_world =
     \<lparr>read_file = (\<lambda>t p.
        if p = ''/etc/os-release'' then Inr example_descriptor
        else if p = ''/etc/foo.conf'' then Inr ''X''
        else Inl ''no such file or directory''),
      stat_modtime = (\<lambda>t p.
        if p = ''/etc/foo.conf'' then Inr ''2024-01-01 00:00:00 +0000 UTC''
        else Inl ''no such file or directory''),
      cmd_output = (\<lambda>name args. (example_output, None)),
      MarshalIndent = (\<lambda>v. Inr ''{}'')\<rparr>"

text \<open>
  The agent \<^verbatim>\<open>NewAgent\<close> builds in this world, the snapshot the run assembles and the
  trace of the run up to the final print.
\<close>

definition example_agent :: Agent where
  "example_agent =
     \<lparr>osDetector = \<lparr>osRelease = [''ID'' \<mapsto> ''ubuntu'']\<rparr>,
      pkgManager = \<lparr>pkgType = ''apt''\<rparr>,
      configReader = \<lparr>rootDir = ''/''\<rparr>,
      systemInfo = \<lparr>OSRelease = Map.empty, Packages = [], Configurations = Map.empty\<rparr>\<rparr>"

definition example_snapshot :: SystemInfo where
  "example_snapshot =
     \<lparr>OSRelease = [''ID'' \<mapsto> ''ubuntu''],
      Packages = [\<lparr>Name = ''foo'', Version = ''1.0'',
                   ConfigFiles = [''/etc/foo.conf'', ''/etc/foo2.conf''], RequiredPackages = []\<rparr>],
      Configurations =
        [''/etc/foo.conf'' \<mapsto>
           \<lparr>Path = ''/etc/foo.conf'', Content = ''X'', Modified = ''2024-01-01 00:00:00 +0000 UTC''\<rparr>]\<rparr>"

definition example_trace :: "event list" where
  "example_trace =
     [ReadFile ''/etc/os-release'',
      Exec ''dpkg-query'' [''-W'', ''-f'',
        ''${Package}'' @ [tab] @ ''${Version}'' @ [tab] @ ''${Conffiles}'' @ [newline]],
      ReadFile ''/etc/foo.conf'',
      Stat ''/etc/foo.conf'',
      ReadFile ''/etc/foo2.conf'',
      Write Stdout (''Warning: couldn'' @ [CHR 0x27] @ ''t read config /etc/foo2.conf: '' @
        ''failed to read config file /etc/foo2.conf: no such file or directory'' @ [newline])]"

text \<open>The same host when the package query fails after printing something.\<close>

definition failing_query_world :: world where
  "failing_query_world =
     example_world\<lparr>cmd_output := \<lambda>name args. (''partial'', Some ''exit status 1'')\<rparr>"

text \<open>
  Two more hosts: one where two packages declare \<^verbatim>\<open>/etc/foo.conf\<close> and the file is
  rewritten between the two reads, and one whose only package has an empty third field.
\<close>

definition shared_path_world :: world where
  "shared_path_world =
     example_world
       \<lparr>read_file := (\<lambda>t p.
          if p = ''/etc/os-release'' then Inr example_descriptor
          else if p = ''/etc/foo.conf'' then (if t < 4 then Inr ''old'' else Inr ''new'')
          else Inl ''no such file or directory''),
        cmd_output := (\<lambda>name args.
          (''a'' @ [tab] @ ''1'' @ [tab] @ ''/etc/foo.conf'' @ [newline] @
           ''b'' @ [tab] @ ''2'' @ [tab] @ ''/etc/foo.conf'' @ [newline], None))\<rparr>"

definition empty_field_world :: world where
  "empty_field_world =
     example_world\<lparr>cmd_output := (\<lambda>name args. (''n'' @ [tab] @ ''v'' @ [tab] @ [newline], None))\<rparr>"


text \<open>
  The example host with another file on it and another command installed: nothing the
  program asks for has changed.
\<close>

definition other_files_world :: world where
  "other_files_world =
     example_world
       \<lparr>read_file := (\<lambda>t p.
          if p = ''/etc/os-release'' then Inr example_descriptor
          else if p = ''/etc/foo.conf'' then Inr ''X''
          else if p = ''/etc/motd'' then Inr ''hello''
          else Inl ''no such file or directory''),
        cmd_output := (\<lambda>name args.
          if name = ''uname'' then (''Linux'', None) else (example_output, None))\<rparr>"

section \<open>Properties\<close>

subsection \<open>Splitting, joining and trimming\<close>

lemma Split_no_sep: "sep \<notin> set s \<Longrightarrow> Split s sep = [s]"
  by (simp add: Split.simps)

lemma Split_not_Nil: "Split s sep \<noteq> []"
  by (subst Split.simps) simp

lemma Split_first: "sep \<notin> set f \<Longrightarrow> Split (f @ sep # rest) sep = f # Split rest sep"
proof -
  assume a: "sep \<notin> set f"
  then have "takeWhile (\<lambda>c. c \<noteq> sep) (f @ sep # rest) = f"
    by (subst takeWhile_append2) auto
  moreover from a have "dropWhile (\<lambda>c. c \<noteq> sep) (f @ sep # rest) = sep # rest"
    by (subst dropWhile_append2) auto
  ultimately show ?thesis
    by (subst Split.simps) simp
qed

lemma Split_Join:
  "fs \<noteq> [] \<Longrightarrow> (\<And>f. f \<in> set fs \<Longrightarrow> sep \<notin> set f) \<Longrightarrow> Split (strings_Join fs sep) sep = fs"
proof (induction fs sep rule: strings_Join.induct)
  case (1 sep)
  then show ?case by simp
next
  case (2 e sep)
  then show ?case by (simp add: Split_no_sep)
next
  case (3 e v va sep)
  then show ?case by (simp add: Split_first)
qed

lemma Join_Split: "strings_Join (Split s sep) sep = s"
proof (induction s sep rule: Split.induct)
  case (1 s sep)
  show ?case
  proof (cases "sep \<in> set s")
    case True
    then have ne: "dropWhile (\<lambda>c. c \<noteq> sep) s \<noteq> []"
      by (auto simp: dropWhile_eq_Nil_conv)
    then have hd: "hd (dropWhile (\<lambda>c. c \<noteq> sep) s) = sep"
      using hd_dropWhile[of "\<lambda>c. c \<noteq> sep" s] by simp
    obtain r rs where sp: "Split (tl (dropWhile (\<lambda>c. c \<noteq> sep) s)) sep = r # rs"
      by (meson Split_not_Nil neq_Nil_conv)
    have "strings_Join (Split s sep) sep =
            takeWhile (\<lambda>c. c \<noteq> sep) s @ [sep] @ strings_Join (Split (tl (dropWhile (\<lambda>c. c \<noteq> sep) s)) sep) sep"
      using True sp by (subst Split.simps) simp
    also have "\<dots> = takeWhile (\<lambda>c. c \<noteq> sep) s @ [sep] @ tl (dropWhile (\<lambda>c. c \<noteq> sep) s)"
      using 1 True by simp
    also have "\<dots> = takeWhile (\<lambda>c. c \<noteq> sep) s @ dropWhile (\<lambda>c. c \<noteq> sep) s"
      using ne hd by (cases "dropWhile (\<lambda>c. c \<noteq> sep) s") auto
    finally show ?thesis by simp
  next
    case False
    then show ?thesis by (simp add: Split_no_sep)
  qed
qed

lemma Split_fields_no_sep: "f \<in> set (Split s sep) \<Longrightarrow> sep \<notin> set f"
proof (induction s sep rule: Split.induct)
  case (1 s sep)
  show ?case
  proof (cases "sep \<in> set s")
    case True
    with 1 show ?thesis
      by (subst (asm) (2) Split.simps) (auto dest: set_takeWhileD)
  next
    case False
    with 1 show ?thesis by (simp add: Split_no_sep)
  qed
qed

lemma Split_three_fields_last_empty:
  assumes "tab \<notin> set name" and "tab \<notin> set version"
  shows "Split (name @ [tab] @ version @ [tab]) tab = [name, version, []]"
  using assms by (simp add: Split_first Split_no_sep)

lemma SplitN2_no_sep: "sep \<notin> set s \<Longrightarrow> SplitN2 s sep = [s]"
  by (simp add: SplitN2_def)

lemma SplitN2_first: "sep \<notin> set k \<Longrightarrow> SplitN2 (k @ [sep] @ v) sep = [k, v]"
proof -
  assume a: "sep \<notin> set k"
  then have "takeWhile (\<lambda>c. c \<noteq> sep) (k @ sep # v) = k"
    by (subst takeWhile_append2) auto
  moreover from a have "dropWhile (\<lambda>c. c \<noteq> sep) (k @ sep # v) = sep # v"
    by (subst dropWhile_append2) auto
  ultimately show ?thesis
    by (simp add: SplitN2_def)
qed

lemma Trim_quoted:
  assumes "body = [] \<or> (hd body \<noteq> c \<and> last body \<noteq> c)"
  shows "Trim (c # body @ [c]) c = body" and "Trim body c = body"
proof -
  show "Trim (c # body @ [c]) c = body"
  proof (cases "body = []")
    case True
    then show ?thesis by (simp add: Trim_def)
  next
    case False
    then obtain x xs where b: "body = x # xs" by (cases body) auto
    with assms have x: "x \<noteq> c" by simp
    from False assms have "hd (rev body) \<noteq> c"
      by (simp add: hd_rev)
    then have r: "dropWhile (\<lambda>y. y = c) (rev body) = rev body"
      using False by (cases "rev body") auto
    have "dropWhile (\<lambda>y. y = c) (c # body @ [c]) = body @ [c]"
      using b x by simp
    then show ?thesis
      using r by (simp add: Trim_def)
  qed
  show "Trim body c = body"
  proof (cases "body = []")
    case True
    then show ?thesis by (simp add: Trim_def)
  next
    case False
    then obtain x xs where b: "body = x # xs" by (cases body) auto
    with assms have x: "x \<noteq> c" by simp
    from False assms have "hd (rev body) \<noteq> c"
      by (simp add: hd_rev)
    then have r: "dropWhile (\<lambda>y. y = c) (rev body) = rev body"
      using False by (cases "rev body") auto
    have "dropWhile (\<lambda>y. y = c) body = body"
      using b x by simp
    then show ?thesis
      using r by (simp add: Trim_def)
  qed
qed

lemma Join_root_empty: "Join [''/'', []] = ''/''"
  by code_simp

subsection \<open>Reading the distribution descriptor\<close>

lemma osRelease_loop_skip:
  "equals \<notin> set line \<Longrightarrow> osRelease_loop m (line # lines) = osRelease_loop m lines"
  by (simp add: SplitN2_no_sep)

lemma osRelease_loop_entry:
  "equals \<notin> set rawkey \<Longrightarrow>
   osRelease_loop m ((rawkey @ [equals] @ rawvalue) # lines) =
     osRelease_loop (m(Trim rawkey quote \<mapsto> Trim rawvalue quote)) lines"
  using SplitN2_first [of equals rawkey rawvalue] by simp

lemma osRelease_loop_append:
  "osRelease_loop m (xs @ ys) = osRelease_loop (osRelease_loop m xs) ys"
  by (induction xs arbitrary: m) (simp_all add: Let_def)

lemma osRelease_loop_other:
  assumes "\<And>l. l \<in> set lines \<Longrightarrow> equals \<in> set l \<Longrightarrow>
             Trim (takeWhile (\<lambda>c. c \<noteq> equals) l) quote \<noteq> key"
  shows "osRelease_loop m lines key = m key"
  using assms
proof (induction lines arbitrary: m)
  case Nil
  then show ?case by simp
next
  case (Cons l lines)
  have rest: "osRelease_loop m' lines key = m' key" for m'
    using Cons.prems by (intro Cons.IH) simp_all
  show ?case
  proof (cases "equals \<in> set l")
    case True
    then have "Trim (takeWhile (\<lambda>c. c \<noteq> equals) l) quote \<noteq> key"
      using Cons.prems by simp
    then show ?thesis
      using True rest by (simp add: SplitN2_def)
  next
    case False
    then show ?thesis
      using rest by (simp add: SplitN2_no_sep)
  qed
qed

text \<open>
  Claim C5. A line with no \<^verbatim>\<open>=\<close> is skipped. A line is cut at its first \<^verbatim>\<open>=\<close> (the
  value may contain more of them), and the entry stored has the key and the value with
  the double quotes around them removed: trimming a text in double quotes gives the text
  between them. So when the descriptor is the lines joined by newlines and exactly one
  line has a given key (no other line with a \<^verbatim>\<open>=\<close> has the same key once trimmed), the
  detector is built and maps the trimmed key to the trimmed value of that line.
\<close>

theorem NewOSDetector_lookup_unique_key:
  "(equals \<notin> set line \<longrightarrow> osRelease_loop m (line # lines) = osRelease_loop m lines) \<and>
   (equals \<notin> set rawkey \<longrightarrow>
      osRelease_loop m ((rawkey @ [equals] @ rawvalue) # lines) =
        osRelease_loop (m(Trim rawkey quote \<mapsto> Trim rawvalue quote)) lines) \<and>
   (body = [] \<or> (hd body \<noteq> quote \<and> last body \<noteq> quote) \<longrightarrow>
      Trim (quote # body @ [quote]) quote = body \<and> Trim body quote = body) \<and>
   (read_file w (length tr) ''/etc/os-release'' =
      Inr (strings_Join (before @ [rawkey @ [equals] @ rawvalue] @ after) newline) \<and>
    (\<forall>l \<in> set (before @ [rawkey @ [equals] @ rawvalue] @ after). newline \<notin> set l) \<and>
    equals \<notin> set rawkey \<and>
    (\<forall>l \<in> set (before @ after). equals \<in> set l \<longrightarrow>
       Trim (takeWhile (\<lambda>c. c \<noteq> equals) l) quote \<noteq> Trim rawkey quote) \<longrightarrow>
      (\<exists>det. fst (NewOSDetector w tr) = Inr det \<and>
         osRelease det (Trim rawkey quote) = Some (Trim rawvalue quote)))"
proof (intro conjI impI)
  assume "equals \<notin> set line"
  then show "osRelease_loop m (line # lines) = osRelease_loop m lines"
    by (rule osRelease_loop_skip)
next
  assume "equals \<notin> set rawkey"
  then show "osRelease_loop m ((rawkey @ [equals] @ rawvalue) # lines) =
        osRelease_loop (m(Trim rawkey quote \<mapsto> Trim rawvalue quote)) lines"
    by (rule osRelease_loop_entry)
next
  assume b: "body = [] \<or> (hd body \<noteq> quote \<and> last body \<noteq> quote)"
  show "Trim (quote # body @ [quote]) quote = body"
    using b by (rule Trim_quoted(1))
  show "Trim body quote = body"
    using b by (rule Trim_quoted(2))
next
  let ?line = "rawkey @ [equals] @ rawvalue"
  let ?all = "before @ [?line] @ after"
  assume h: "read_file w (length tr) ''/etc/os-release'' = Inr (strings_Join ?all newline) \<and>
    (\<forall>l \<in> set ?all. newline \<notin> set l) \<and>
    equals \<notin> set rawkey \<and>
    (\<forall>l \<in> set (before @ after). equals \<in> set l \<longrightarrow>
       Trim (takeWhile (\<lambda>c. c \<noteq> equals) l) quote \<noteq> Trim rawkey quote)"
  have sp: "Split (strings_Join ?all newline) newline = ?all"
    using h by (intro Split_Join) auto
  have e: "equals \<notin> set rawkey"
    using h by blast
  have one: "osRelease_loop m' [?line] = m'(Trim rawkey quote \<mapsto> Trim rawvalue quote)" for m'
    using osRelease_loop_entry [OF e, of m' rawvalue "[]"] by (simp only: osRelease_loop.simps(1))
  have "osRelease_loop Map.empty ?all (Trim rawkey quote) =
        osRelease_loop ((osRelease_loop Map.empty before)(Trim rawkey quote \<mapsto> Trim rawvalue quote))
          after (Trim rawkey quote)"
    by (simp only: osRelease_loop_append one)
  also have "\<dots> = ((osRelease_loop Map.empty before)(Trim rawkey quote \<mapsto> Trim rawvalue quote))
          (Trim rawkey quote)"
    using h by (intro osRelease_loop_other) auto
  finally have "osRelease_loop Map.empty ?all (Trim rawkey quote) = Some (Trim rawvalue quote)"
    by simp
  then show "\<exists>det. fst (NewOSDetector w tr) = Inr det \<and>
         osRelease det (Trim rawkey quote) = Some (Trim rawvalue quote)"
    using h sp by (simp add: NewOSDetector_def)
qed

theorem NewOSDetector_lookup_unique_key_witness:
  "\<exists>det. fst (NewOSDetector example_world []) = Inr det \<and> osRelease det ''ID'' = Some ''ubuntu''"
proof -
  have d: "read_file example_world (length ([] :: event list)) ''/etc/os-release'' =
      Inr (strings_Join ([] @ [''ID'' @ [equals] @ ([quote] @ ''ubuntu'' @ [quote])] @ [[]]) newline)"
    by (simp add: example_world_def example_descriptor_def equals_def)
  have nl: "\<forall>l \<in> set ([] @ [''ID'' @ [equals] @ ([quote] @ ''ubuntu'' @ [quote])] @ [[]]). newline \<notin> set l"
    by (simp add: equals_def quote_def newline_def)
  have eq: "equals \<notin> set ''ID''"
    by (simp add: equals_def)
  have others: "\<forall>l \<in> set ([] @ [[]]). equals \<in> set l \<longrightarrow>
       Trim (takeWhile (\<lambda>c. c \<noteq> equals) l) quote \<noteq> Trim ''ID'' quote"
    by simp
  have k: "Trim ''ID'' quote = ''ID''" and v: "Trim ([quote] @ ''ubuntu'' @ [quote]) quote = ''ubuntu''"
    by (simp_all add: Trim_def quote_def)
  show ?thesis
    using NewOSDetector_lookup_unique_key [where w = example_world and tr = "[]" and before = "[]" and rawkey = "''ID''"
        and rawvalue = "[quote] @ ''ubuntu'' @ [quote]" and after = "[[]]"]
      d nl eq others
    unfolding k v by blast
qed

subsection \<open>Choosing the package backend\<close>

lemma Contains_sublist: "Contains s substr \<longleftrightarrow> sublist substr s"
  by (induction s) (auto simp: sublist_Cons_right)

lemma sublist_map_iff:
  "sublist tok (map f s) \<longleftrightarrow> (\<exists>pre mid post. s = pre @ mid @ post \<and> map f mid = tok)"
  unfolding sublist_def
  apply (auto simp: map_eq_append_conv append_eq_map_conv)
  apply metis
  done

lemma Contains_ToLower:
  "Contains (ToLower s) tok \<longleftrightarrow> (\<exists>pre mid post. s = pre @ mid @ post \<and> ToLower mid = tok)"
  by (simp add: Contains_sublist ToLower_def sublist_map_iff)

text \<open>
  Claim C2. The backend selector is a total function of the distribution ID with two
  results and no error: it gives the RPM backend exactly when some part of the ID is,
  letter case apart, one of the tokens \<^verbatim>\<open>rhel\<close>, \<^verbatim>\<open>centos\<close>, \<^verbatim>\<open>fedora\<close>, and the
  Debian-style backend for every other ID. Two IDs that differ only in letter case
  select the same backend; \<^verbatim>\<open>RHEL\<close>, \<^verbatim>\<open>rhel\<close> and \<^verbatim>\<open>Rhel\<close> select RPM.
\<close>

theorem NewPackageManager_case_insensitive_substring:
  "NewPackageManager osID =
     (if \<exists>pre mid post. osID = pre @ mid @ post \<and>
           ToLower mid \<in> {''rhel'', ''centos'', ''fedora''}
      then \<lparr>pkgType = ''rpm''\<rparr> else \<lparr>pkgType = ''apt''\<rparr>) \<and>
   (ToLower osID = ToLower osID' \<longrightarrow> NewPackageManager osID = NewPackageManager osID') \<and>
   NewPackageManager ''RHEL'' = \<lparr>pkgType = ''rpm''\<rparr> \<and>
   NewPackageManager ''rhel'' = \<lparr>pkgType = ''rpm''\<rparr> \<and>
   NewPackageManager ''Rhel'' = \<lparr>pkgType = ''rpm''\<rparr>"
proof (intro conjI impI)
  show "NewPackageManager osID =
     (if \<exists>pre mid post. osID = pre @ mid @ post \<and>
           ToLower mid \<in> {''rhel'', ''centos'', ''fedora''}
      then \<lparr>pkgType = ''rpm''\<rparr> else \<lparr>pkgType = ''apt''\<rparr>)"
  proof -
    have "(\<exists>pre mid post. osID = pre @ mid @ post \<and>
             ToLower mid \<in> {''rhel'', ''centos'', ''fedora''})
      \<longleftrightarrow> (Contains (ToLower osID) ''rhel'' \<or> Contains (ToLower osID) ''centos'' \<or>
           Contains (ToLower osID) ''fedora'')"
      unfolding Contains_ToLower by blast
    then show ?thesis
      unfolding NewPackageManager_def by presburger
  qed
next
  assume "ToLower osID = ToLower osID'"
  then show "NewPackageManager osID = NewPackageManager osID'"
    by (simp add: NewPackageManager_def)
next
  show "NewPackageManager ''RHEL'' = \<lparr>pkgType = ''rpm''\<rparr>" by code_simp
  show "NewPackageManager ''rhel'' = \<lparr>pkgType = ''rpm''\<rparr>" by code_simp
  show "NewPackageManager ''Rhel'' = \<lparr>pkgType = ''rpm''\<rparr>" by code_simp
qed

theorem NewPackageManager_case_insensitive_substring_witness:
  "NewPackageManager ''xRhEl9'' = \<lparr>pkgType = ''rpm''\<rparr> \<and>
   NewPackageManager ''xRhEl9'' = NewPackageManager ''XRHEL9'' \<and>
   NewPackageManager ''ubuntu'' = \<lparr>pkgType = ''apt''\<rparr>"
proof -
  have a: "ToLower ''xRhEl9'' = ToLower ''XRHEL9''"
    by code_simp
  have "''xRhEl9'' = ''x'' @ ''RhEl'' @ ''9'' \<and>
        ToLower ''RhEl'' \<in> {''rhel'', ''centos'', ''fedora''}"
    by code_simp
  then have b: "\<exists>pre mid post. ''xRhEl9'' = pre @ mid @ post \<and>
        ToLower mid \<in> {''rhel'', ''centos'', ''fedora''}"
    by blast
  have c: "NewPackageManager ''ubuntu'' = \<lparr>pkgType = ''apt''\<rparr>"
    by code_simp
  show ?thesis
    using NewPackageManager_case_insensitive_substring [of "''xRhEl9''" "''XRHEL9''"] a b c
    by metis
qed

subsection \<open>Enumerating the packages\<close>

lemma packages_loop_eq:
  "packages_loop packages lines =
     packages @
     map (\<lambda>line. let parts = Split line tab in
            \<lparr>Name = parts ! 0, Version = parts ! 1,
             ConfigFiles = (if length parts > 2 then Split (parts ! 2) space else []),
             RequiredPackages = []\<rparr>)
       (filter (\<lambda>line. line \<noteq> [] \<and> length (Split line tab) \<ge> 2) lines)"
  by (induction lines arbitrary: packages) (auto simp: Let_def)

lemma packages_loop_member:
  assumes "line \<in> set lines" and "line \<noteq> []" and "length (Split line tab) \<ge> 2"
  shows "\<lparr>Name = Split line tab ! 0, Version = Split line tab ! 1,
          ConfigFiles = (if length (Split line tab) > 2 then Split (Split line tab ! 2) space else []),
          RequiredPackages = []\<rparr> \<in> set (packages_loop packages lines)"
proof -
  have "line \<in> set (filter (\<lambda>line. line \<noteq> [] \<and> length (Split line tab) \<ge> 2) lines)"
    using assms by simp
  then show ?thesis
    unfolding packages_loop_eq by (force simp: Let_def)
qed

lemma GetInstalledPackages_ok:
  "cmd_output w (fst (query_command pm)) (snd (query_command pm)) = (output, None) \<Longrightarrow>
   GetInstalledPackages pm w tr =
     ((packages_loop [] (Split output newline), None),
      tr @ [Exec (fst (query_command pm)) (snd (query_command pm))])"
  by (auto simp: GetInstalledPackages_def Let_def split: prod.splits)

lemma GetInstalledPackages_err:
  "cmd_output w (fst (query_command pm)) (snd (query_command pm)) = (output, Some err) \<Longrightarrow>
   GetInstalledPackages pm w tr =
     (([], Some (''failed to query packages: '' @ err)),
      tr @ [Exec (fst (query_command pm)) (snd (query_command pm))])"
  by (auto simp: GetInstalledPackages_def Let_def split: prod.splits)

text \<open>
  Claim C1. When the package query succeeds, the enumerator returns, with no error, one
  record for each line of the output (split on newline) that is not empty and has at
  least two tab-separated fields, in order: its name is the first field, its version
  the second, and its configuration files are the third field split on single spaces
  when there is a third field, and none otherwise. Every other line is dropped. The
  output \<^verbatim>\<open>foo\t1.0\t/etc/foo.conf /etc/foo2.conf\n\<close> gives exactly one record, and
  \<^verbatim>\<open>bar\n\<close> gives none.
\<close>

theorem GetInstalledPackages_parse:
  "(cmd_output w (fst (query_command pm)) (snd (query_command pm)) = (output, None) \<longrightarrow>
      fst (GetInstalledPackages pm w tr) =
        (map (\<lambda>line. let parts = Split line tab in
                \<lparr>Name = parts ! 0, Version = parts ! 1,
                 ConfigFiles = (if length parts > 2 then Split (parts ! 2) space else []),
                 RequiredPackages = []\<rparr>)
           (filter (\<lambda>line. line \<noteq> [] \<and> length (Split line tab) \<ge> 2) (Split output newline)),
         None)) \<and>
   (cmd_output w (fst (query_command pm)) (snd (query_command pm)) =
       (''foo'' @ [tab] @ ''1.0'' @ [tab] @ ''/etc/foo.conf /etc/foo2.conf'' @ [newline], None) \<longrightarrow>
      fst (GetInstalledPackages pm w tr) =
        ([\<lparr>Name = ''foo'', Version = ''1.0'',
           ConfigFiles = [''/etc/foo.conf'', ''/etc/foo2.conf''], RequiredPackages = []\<rparr>], None)) \<and>
   (cmd_output w (fst (query_command pm)) (snd (query_command pm)) = (''bar'' @ [newline], None) \<longrightarrow>
      fst (GetInstalledPackages pm w tr) = ([], None))"
proof (intro conjI impI)
  assume "cmd_output w (fst (query_command pm)) (snd (query_command pm)) = (output, None)"
  then show "fst (GetInstalledPackages pm w tr) =
        (map (\<lambda>line. let parts = Split line tab in
                \<lparr>Name = parts ! 0, Version = parts ! 1,
                 ConfigFiles = (if length parts > 2 then Split (parts ! 2) space else []),
                 RequiredPackages = []\<rparr>)
           (filter (\<lambda>line. line \<noteq> [] \<and> length (Split line tab) \<ge> 2) (Split output newline)),
         None)"
    by (simp add: GetInstalledPackages_ok packages_loop_eq)
next
  have "packages_loop []
          (Split (''foo'' @ [tab] @ ''1.0'' @ [tab] @ ''/etc/foo.conf /etc/foo2.conf'' @ [newline]) newline) =
        [\<lparr>Name = ''foo'', Version = ''1.0'',
           ConfigFiles = [''/etc/foo.conf'', ''/etc/foo2.conf''], RequiredPackages = []\<rparr>]"
    by code_simp
  moreover assume "cmd_output w (fst (query_command pm)) (snd (query_command pm)) =
       (''foo'' @ [tab] @ ''1.0'' @ [tab] @ ''/etc/foo.conf /etc/foo2.conf'' @ [newline], None)"
  ultimately show "fst (GetInstalledPackages pm w tr) =
        ([\<lparr>Name = ''foo'', Version = ''1.0'',
           ConfigFiles = [''/etc/foo.conf'', ''/etc/foo2.conf''], RequiredPackages = []\<rparr>], None)"
    by (simp only: GetInstalledPackages_ok fst_conv)
next
  have "packages_loop [] (Split (''bar'' @ [newline]) newline) = []"
    by code_simp
  moreover assume "cmd_output w (fst (query_command pm)) (snd (query_command pm)) = (''bar'' @ [newline], None)"
  ultimately show "fst (GetInstalledPackages pm w tr) = ([], None)"
    by (simp only: GetInstalledPackages_ok fst_conv)
qed

theorem GetInstalledPackages_parse_witness:
  "fst (GetInstalledPackages \<lparr>pkgType = ''apt''\<rparr> example_world []) =
     ([\<lparr>Name = ''foo'', Version = ''1.0'',
        ConfigFiles = [''/etc/foo.conf'', ''/etc/foo2.conf''], RequiredPackages = []\<rparr>], None) \<and>
   fst (GetInstalledPackages \<lparr>pkgType = ''apt''\<rparr>
          (example_world\<lparr>cmd_output := \<lambda>name args. (''bar'' @ [newline], None)\<rparr>) []) = ([], None)"
proof -
  have a: "cmd_output example_world (fst (query_command \<lparr>pkgType = ''apt''\<rparr>))
             (snd (query_command \<lparr>pkgType = ''apt''\<rparr>)) =
           (''foo'' @ [tab] @ ''1.0'' @ [tab] @ ''/etc/foo.conf /etc/foo2.conf'' @ [newline], None)"
    by (simp add: example_world_def example_output_def)
  have b: "cmd_output (example_world\<lparr>cmd_output := \<lambda>name args. (''bar'' @ [newline], None)\<rparr>)
             (fst (query_command \<lparr>pkgType = ''apt''\<rparr>))
             (snd (query_command \<lparr>pkgType = ''apt''\<rparr>)) = (''bar'' @ [newline], None)"
    by simp
  show ?thesis
    using GetInstalledPackages_parse [of example_world "\<lparr>pkgType = ''apt''\<rparr>" _ "[]"] a
      GetInstalledPackages_parse [of "example_world\<lparr>cmd_output := \<lambda>name args. (''bar'' @ [newline], None)\<rparr>"
             "\<lparr>pkgType = ''apt''\<rparr>" _ "[]"] b
    by blast
qed

subsection \<open>The loops of the configuration collector\<close>

lemma ReadConfigFile_Path: "fst (ReadConfigFile cr w tr p) = Inr cf \<Longrightarrow> Path cf = p"
  by (auto simp: ReadConfigFile_def Let_def split: sum.splits)

lemma ReadConfigFile_trace:
  "\<exists>evs. snd (ReadConfigFile cr w tr p) = tr @ ReadFile (Join [rootDir cr, p]) # evs"
  by (auto simp: ReadConfigFile_def Let_def split: sum.splits)

lemma ReadConfigFile_writes:
  "Write s msg \<in> set (snd (ReadConfigFile cr w tr p)) \<Longrightarrow> Write s msg \<in> set tr"
  by (auto simp: ReadConfigFile_def Let_def split: sum.splits)

lemma ReadConfigFile_cong:
  assumes "\<And>t. read_file w t (Join [rootDir cr, p]) = read_file w' t (Join [rootDir cr, p])"
    and "\<And>t. stat_modtime w t (Join [rootDir cr, p]) = stat_modtime w' t (Join [rootDir cr, p])"
  shows "ReadConfigFile cr w tr p = ReadConfigFile cr w' tr p"
  by (simp add: ReadConfigFile_def Let_def assms split: sum.splits)








lemma config_loop_append:
  "config_loop cr w st (xs @ ys) = config_loop cr w (config_loop cr w st xs) ys"
proof (induction xs arbitrary: st)
  case Nil
  then show ?case by (cases st) simp
next
  case (Cons x xs)
  then show ?case by (cases st) (simp split: prod.splits sum.splits)
qed

lemma package_loop_concat:
  "package_loop cr w st pkgs = config_loop cr w st (concat (map ConfigFiles pkgs))"
proof (induction pkgs arbitrary: st)
  case Nil
  then show ?case by (cases st) simp
next
  case (Cons pkg pkgs)
  then show ?case by (simp add: config_loop_append)
qed

lemma config_loop_trace: "\<exists>evs. snd (config_loop cr w (configs, tr) ps) = tr @ evs"
proof (induction ps arbitrary: configs tr)
  case Nil
  then show ?case by simp
next
  case (Cons p ps)
  obtain r tr1 where rc: "ReadConfigFile cr w tr p = (r, tr1)"
    by (cases "ReadConfigFile cr w tr p")
  obtain evs where tr1: "tr1 = tr @ evs"
    using ReadConfigFile_trace [of cr w tr p] rc by auto
  show ?case
  proof (cases r)
    case (Inl err)
    obtain evs' where "snd (config_loop cr w (configs, tr1 @ [warning p err]) ps) = (tr1 @ [warning p err]) @ evs'"
      using Cons.IH by blast
    then show ?thesis using rc Inl tr1 by simp
  next
    case (Inr cf)
    obtain evs' where "snd (config_loop cr w (configs(p \<mapsto> cf), tr1) ps) = tr1 @ evs'"
      using Cons.IH by blast
    then show ?thesis using rc Inr tr1 by simp
  qed
qed

lemma config_loop_notin:
  "p \<notin> set ps \<Longrightarrow> fst (config_loop cr w (configs, tr) ps) p = configs p"
  by (induction ps arbitrary: configs tr) (auto split: prod.splits sum.splits)

lemma config_loop_dom:
  "dom (fst (config_loop cr w (configs, tr) ps)) \<subseteq> dom configs \<union> set ps"
proof -
  have "fst (config_loop cr w (configs, tr) ps) p = configs p" if "p \<notin> set ps" for p
    using that by (rule config_loop_notin)
  then show ?thesis
    by (auto simp: dom_def)
qed




lemma config_loop_last:
  assumes "p \<notin> set post"
    and "fst (ReadConfigFile cr w (snd (config_loop cr w st pre)) p) = Inr cf"
  shows "fst (config_loop cr w st (pre @ p # post)) p = Some cf"
proof -
  obtain configs1 tr1 where st1: "config_loop cr w st pre = (configs1, tr1)"
    by (cases "config_loop cr w st pre")
  obtain tr2 where rc: "ReadConfigFile cr w tr1 p = (Inr cf, tr2)"
    using assms(2) st1 by (cases "ReadConfigFile cr w tr1 p") auto
  have "config_loop cr w st (pre @ p # post) = config_loop cr w (configs1(p \<mapsto> cf), tr2) post"
    using st1 rc by (simp add: config_loop_append)
  then show ?thesis
    using assms(1) by (simp add: config_loop_notin)
qed


lemma config_loop_reads:
  assumes "p \<in> set ps"
  shows "ReadFile (Join [rootDir cr, p]) \<in> set (snd (config_loop cr w st ps))"
proof -
  obtain pre post where sp: "ps = pre @ p # post"
    using assms split_list by fastforce
  obtain configs1 tr1 where st1: "config_loop cr w st pre = (configs1, tr1)"
    by (cases "config_loop cr w st pre")
  obtain r tr2 where rc: "ReadConfigFile cr w tr1 p = (r, tr2)"
    by (cases "ReadConfigFile cr w tr1 p")
  then have mem: "ReadFile (Join [rootDir cr, p]) \<in> set tr2"
    using ReadConfigFile_trace [of cr w tr1 p] by auto
  have "\<exists>configs2 evs. snd (config_loop cr w st ps) = snd (config_loop cr w (configs2, tr2 @ evs) post)"
  proof (cases r)
    case (Inl err)
    then have "snd (config_loop cr w st ps) = snd (config_loop cr w (configs1, tr2 @ [warning p err]) post)"
      using sp st1 rc by (simp add: config_loop_append)
    then show ?thesis by blast
  next
    case (Inr cf)
    then have "snd (config_loop cr w st ps) = snd (config_loop cr w (configs1(p \<mapsto> cf), tr2 @ []) post)"
      using sp st1 rc by (simp add: config_loop_append)
    then show ?thesis by blast
  qed
  then obtain configs2 evs evs' where "snd (config_loop cr w st ps) = (tr2 @ evs) @ evs'"
    using config_loop_trace by metis
  then show ?thesis using mem by simp
qed

lemma config_loop_writes:
  "Write s msg \<in> set (snd (config_loop cr w (configs, tr) ps)) \<Longrightarrow>
   Write s msg \<in> set tr \<or> s = Stdout"
proof (induction ps arbitrary: configs tr)
  case Nil
  then show ?case by simp
next
  case (Cons p ps)
  obtain r tr1 where rc: "ReadConfigFile cr w tr p = (r, tr1)"
    by (cases "ReadConfigFile cr w tr p")
  have tr1: "Write s msg \<in> set tr1 \<Longrightarrow> Write s msg \<in> set tr"
    using ReadConfigFile_writes [of s msg cr w tr p] rc by simp
  show ?case
  proof (cases r)
    case (Inl err)
    then have "Write s msg \<in> set (snd (config_loop cr w (configs, tr1 @ [warning p err]) ps))"
      using Cons.prems rc by simp
    then have "Write s msg \<in> set (tr1 @ [warning p err]) \<or> s = Stdout"
      by (rule Cons.IH)
    then show ?thesis
      using tr1 by (auto simp: warning_def)
  next
    case (Inr cf)
    then have "Write s msg \<in> set (snd (config_loop cr w (configs(p \<mapsto> cf), tr1) ps))"
      using Cons.prems rc by simp
    then have "Write s msg \<in> set tr1 \<or> s = Stdout"
      by (rule Cons.IH)
    then show ?thesis
      using tr1 by auto
  qed
qed

lemma config_loop_cong:
  assumes "\<And>p t. p \<in> set ps \<Longrightarrow>
             read_file w t (Join [rootDir cr, p]) = read_file w' t (Join [rootDir cr, p]) \<and>
             stat_modtime w t (Join [rootDir cr, p]) = stat_modtime w' t (Join [rootDir cr, p])"
  shows "config_loop cr w st ps = config_loop cr w' st ps"
  using assms
proof (induction ps arbitrary: st)
  case Nil
  then show ?case by (cases st) simp
next
  case (Cons p ps)
  obtain configs tr where st: "st = (configs, tr)"
    by (cases st)
  have "ReadConfigFile cr w tr p = ReadConfigFile cr w' tr p"
    using Cons.prems by (intro ReadConfigFile_cong) simp_all
  moreover have "config_loop cr w st' ps = config_loop cr w' st' ps" for st'
    using Cons.prems by (intro Cons.IH) simp
  ultimately show ?case
    by (simp add: st split: prod.splits sum.splits)
qed

subsection \<open>The agent\<close>

lemma NewAgent_ok:
  assumes "NewAgent w tr = (Inr agent, tr1)"
  shows "tr1 = tr @ [ReadFile ''/etc/os-release'']"
    and "configReader agent = \<lparr>rootDir = ''/''\<rparr>"
  using assms
  by (auto simp: NewAgent_def NewOSDetector_def NewConfigurationReader_def Let_def
      split: sum.splits)

lemma NewAgent_err:
  assumes "NewAgent w tr = (Inl err, tr1)"
  shows "tr1 = tr @ [ReadFile ''/etc/os-release'']"
  using assms
  by (auto simp: NewAgent_def NewOSDetector_def Let_def split: sum.splits)

lemma NewAgent_cong:
  "read_file w (length tr) ''/etc/os-release'' = read_file w' (length tr) ''/etc/os-release'' \<Longrightarrow>
   NewAgent w tr = NewAgent w' tr"
  by (simp add: NewAgent_def NewOSDetector_def)

lemma GatherSystemInfo_ok:
  assumes "cmd_output w (fst (query_command (pkgManager a))) (snd (query_command (pkgManager a))) =
             (output, None)"
  shows "GatherSystemInfo a w tr =
     (None,
      a\<lparr>systemInfo := (systemInfo a)
          \<lparr>OSRelease := osRelease (osDetector a),
           Packages := packages_loop [] (Split output newline),
           Configurations :=
             fst (package_loop (configReader a) w
                    (Map.empty, tr @ [Exec (fst (query_command (pkgManager a)))
                                        (snd (query_command (pkgManager a)))])
                    (packages_loop [] (Split output newline)))\<rparr>\<rparr>,
      snd (package_loop (configReader a) w
             (Map.empty, tr @ [Exec (fst (query_command (pkgManager a)))
                                 (snd (query_command (pkgManager a)))])
             (packages_loop [] (Split output newline))))"
  using assms
  by (simp add: GatherSystemInfo_def GetInstalledPackages_ok Let_def split: prod.splits)

lemma GatherSystemInfo_err:
  assumes "cmd_output w (fst (query_command (pkgManager a))) (snd (query_command (pkgManager a))) =
             (output, Some err)"
  shows "GatherSystemInfo a w tr =
     (Some (''failed to query packages: '' @ err),
      a\<lparr>systemInfo := (systemInfo a)\<lparr>OSRelease := osRelease (osDetector a)\<rparr>\<rparr>,
      tr @ [Exec (fst (query_command (pkgManager a))) (snd (query_command (pkgManager a)))])"
  using assms
  by (simp add: GatherSystemInfo_def GetInstalledPackages_err Let_def)

lemma GatherSystemInfo_cases:
  assumes "GatherSystemInfo a w tr = (None, a', tr')"
  obtains outp where
    "cmd_output w (fst (query_command (pkgManager a))) (snd (query_command (pkgManager a))) =
       (outp, None)"
proof (cases "cmd_output w (fst (query_command (pkgManager a))) (snd (query_command (pkgManager a)))")
  case (Pair outp e)
  show ?thesis
  proof (cases e)
    case None
    with Pair that show ?thesis by blast
  next
    case (Some err)
    with Pair assms show ?thesis by (simp add: GatherSystemInfo_err)
  qed
qed

lemma GatherSystemInfo_writes:
  assumes "Write s msg \<in> set (snd (snd (GatherSystemInfo a w tr)))"
  shows "Write s msg \<in> set tr \<or> s = Stdout"
proof (cases "cmd_output w (fst (query_command (pkgManager a))) (snd (query_command (pkgManager a)))")
  case (Pair outp e)
  show ?thesis
  proof (cases e)
    case None
    with Pair assms have "Write s msg \<in> set (snd (config_loop (configReader a) w
        (Map.empty, tr @ [Exec (fst (query_command (pkgManager a))) (snd (query_command (pkgManager a)))])
        (concat (map ConfigFiles (packages_loop [] (Split outp newline))))))"
      by (simp add: GatherSystemInfo_ok package_loop_concat)
    then have "Write s msg \<in> set (tr @ [Exec (fst (query_command (pkgManager a)))
        (snd (query_command (pkgManager a)))]) \<or> s = Stdout"
      by (rule config_loop_writes)
    then show ?thesis by auto
  next
    case (Some err)
    with Pair assms show ?thesis
      by (simp add: GatherSystemInfo_err)
  qed
qed

lemma GatherSystemInfo_cong:
  assumes cmd: "cmd_output w (fst (query_command (pkgManager a))) (snd (query_command (pkgManager a))) =
                cmd_output w' (fst (query_command (pkgManager a))) (snd (query_command (pkgManager a)))"
    and files: "\<And>outp e pkg p t.
        cmd_output w (fst (query_command (pkgManager a))) (snd (query_command (pkgManager a))) = (outp, e) \<Longrightarrow>
        pkg \<in> set (packages_loop [] (Split outp newline)) \<Longrightarrow> p \<in> set (ConfigFiles pkg) \<Longrightarrow>
        read_file w t (Join [rootDir (configReader a), p]) =
          read_file w' t (Join [rootDir (configReader a), p]) \<and>
        stat_modtime w t (Join [rootDir (configReader a), p]) =
          stat_modtime w' t (Join [rootDir (configReader a), p])"
  shows "GatherSystemInfo a w tr = GatherSystemInfo a w' tr"
proof (cases "cmd_output w (fst (query_command (pkgManager a))) (snd (query_command (pkgManager a)))")
  case (Pair outp e)
  show ?thesis
  proof (cases e)
    case None
    have "config_loop (configReader a) w st (concat (map ConfigFiles (packages_loop [] (Split outp newline)))) =
          config_loop (configReader a) w' st (concat (map ConfigFiles (packages_loop [] (Split outp newline))))" for st
      using files [OF Pair] by (intro config_loop_cong) auto
    then show ?thesis
      using Pair None cmd by (simp add: GatherSystemInfo_ok package_loop_concat)
  next
    case (Some err)
    then show ?thesis
      using Pair cmd by (simp add: GatherSystemInfo_err)
  qed
qed

lemma main_writes:
  assumes "Write s msg \<in> set (snd (main w))"
  shows "s = Stdout"
proof (cases "NewAgent w []")
  case (Pair r tr1)
  show ?thesis
  proof (cases r)
    case (Inl err)
    then have "tr1 = [ReadFile ''/etc/os-release'']"
      using Pair NewAgent_err by fastforce
    then show ?thesis
      using assms Pair Inl by (auto simp: main_def)
  next
    case (Inr agent)
    then have tr1: "tr1 = [ReadFile ''/etc/os-release'']"
      using Pair NewAgent_ok(1) by fastforce
    obtain e agent1 tr2 where g: "GatherSystemInfo agent w tr1 = (e, agent1, tr2)"
      by (cases "GatherSystemInfo agent w tr1")
    have tr2: "Write s msg \<in> set tr2 \<Longrightarrow> s = Stdout"
      using GatherSystemInfo_writes [of s msg agent w tr1] g tr1 by auto
    show ?thesis
      using assms Pair Inr g tr2
      by (cases e; cases "MarshalIndent w (systemInfo agent1)") (auto simp: main_def)
  qed
qed

subsection \<open>The runs in the example worlds\<close>

lemma example_os_release:
  "osRelease_loop Map.empty (Split example_descriptor newline) = [''ID'' \<mapsto> ''ubuntu'']"
  by (simp add: example_descriptor_def Split.simps SplitN2_def Trim_def newline_def quote_def
      equals_def)

lemma example_backend: "NewPackageManager ''ubuntu'' = \<lparr>pkgType = ''apt''\<rparr>"
  by code_simp

lemma example_NewAgent:
  "NewAgent example_world [] = (Inr example_agent, [ReadFile ''/etc/os-release''])"
  by (simp add: NewAgent_def NewOSDetector_def example_world_def example_os_release
      example_backend example_agent_def NewConfigurationReader_def)

lemma example_Join:
  "Join [''/'', ''/etc/foo.conf''] = ''/etc/foo.conf''"
  "Join [''/'', ''/etc/foo2.conf''] = ''/etc/foo2.conf''"
  by code_simp+

lemma example_packages:
  "packages_loop [] (Split example_output newline) =
   [\<lparr>Name = ''foo'', Version = ''1.0'',
     ConfigFiles = [''/etc/foo.conf'', ''/etc/foo2.conf''], RequiredPackages = []\<rparr>]"
  by code_simp

lemma example_query: "query_command (pkgManager example_agent) =
   (''dpkg-query'', [''-W'', ''-f'',
        ''${Package}'' @ [tab] @ ''${Version}'' @ [tab] @ ''${Conffiles}'' @ [newline]])"
  by (simp add: example_agent_def query_command_def)

lemma example_cmd:
  "cmd_output example_world (fst (query_command (pkgManager example_agent)))
     (snd (query_command (pkgManager example_agent))) =
   (example_output, None)"
  by (simp add: example_world_def)

lemma example_GatherSystemInfo:
  "GatherSystemInfo example_agent example_world [ReadFile ''/etc/os-release''] =
     (None, example_agent\<lparr>systemInfo := example_snapshot\<rparr>, example_trace)"
  unfolding GatherSystemInfo_ok [OF example_cmd] example_packages example_query
  by (simp add: example_agent_def example_snapshot_def example_trace_def ReadConfigFile_def
      example_Join example_world_def warning_def Let_def)

lemma example_main:
  "main example_world = (0, example_trace @ [Write Stdout (''{}'' @ [newline])])"
  by (simp add: main_def example_NewAgent example_GatherSystemInfo) (simp add: example_world_def)



lemma failing_query_NewAgent:
  "NewAgent failing_query_world [] = (Inr example_agent, [ReadFile ''/etc/os-release''])"
  by (simp add: NewAgent_def NewOSDetector_def example_world_def failing_query_world_def
      example_os_release example_backend example_agent_def NewConfigurationReader_def)

lemma shared_path_packages:
  "packages_loop []
     (Split (''a'' @ [tab] @ ''1'' @ [tab] @ ''/etc/foo.conf'' @ [newline] @
             ''b'' @ [tab] @ ''2'' @ [tab] @ ''/etc/foo.conf'' @ [newline]) newline) =
   [] @ [\<lparr>Name = ''a'', Version = ''1'', ConfigFiles = [''/etc/foo.conf''], RequiredPackages = []\<rparr>] @
   [\<lparr>Name = ''b'', Version = ''2'', ConfigFiles = [''/etc/foo.conf''], RequiredPackages = []\<rparr>]"
  by code_simp

subsection \<open>What the configurations mapping holds\<close>

text \<open>
  Claim C4. In the snapshot of a run whose \<^verbatim>\<open>GatherSystemInfo\<close> returned no error, every
  key of the configurations mapping is a configuration file declared by one of the
  packages of the snapshot.
\<close>

theorem GatherSystemInfo_keys_declared:
  "GatherSystemInfo a w tr = (None, a', tr') \<longrightarrow>
   dom (Configurations (systemInfo a')) \<subseteq>
     (\<Union>pkg \<in> set (Packages (systemInfo a')). set (ConfigFiles pkg))"
proof
  assume g: "GatherSystemInfo a w tr = (None, a', tr')"
  then obtain outp where
    "cmd_output w (fst (query_command (pkgManager a))) (snd (query_command (pkgManager a))) =
       (outp, None)"
    by (rule GatherSystemInfo_cases)
  from GatherSystemInfo_ok [OF this, of tr] g
  have "\<exists>tr1 pkgs. Packages (systemInfo a') = pkgs \<and>
          Configurations (systemInfo a') = fst (package_loop (configReader a) w (Map.empty, tr1) pkgs)"
    by auto
  then obtain tr1 where
    "Configurations (systemInfo a') =
       fst (config_loop (configReader a) w (Map.empty, tr1)
              (concat (map ConfigFiles (Packages (systemInfo a')))))"
    by (auto simp: package_loop_concat)
  then have "dom (Configurations (systemInfo a')) \<subseteq>
      dom (Map.empty :: string \<rightharpoonup> ConfigFile) \<union> set (concat (map ConfigFiles (Packages (systemInfo a'))))"
    by (simp only: config_loop_dom)
  then show "dom (Configurations (systemInfo a')) \<subseteq>
     (\<Union>pkg \<in> set (Packages (systemInfo a')). set (ConfigFiles pkg))"
    by simp
qed

theorem GatherSystemInfo_keys_declared_witness:
  "dom (Configurations example_snapshot) \<subseteq>
     (\<Union>pkg \<in> set (Packages example_snapshot). set (ConfigFiles pkg))"
  using GatherSystemInfo_keys_declared
    [of example_agent example_world "[ReadFile ''/etc/os-release'']"
        "example_agent\<lparr>systemInfo := example_snapshot\<rparr>" example_trace]
    example_GatherSystemInfo
  by simp




text \<open>
  Claim C7. A map has one entry for a key. When several packages declare the path \<open>p\<close>,
  take the last occurrence of \<open>p\<close>: the package \<open>pkg\<close> with no later package declaring
  \<open>p\<close>, and the position in its list with no later \<open>p\<close>. If the read made at that
  moment succeeds with the snapshot \<open>cf\<close>, the final mapping holds \<open>cf\<close> for \<open>p\<close>, whatever
  the earlier reads of \<open>p\<close> stored.
\<close>

theorem last_declaring_package_wins:
  "cmd_output w (fst (query_command (pkgManager a))) (snd (query_command (pkgManager a))) =
     (out, None) \<and>
   packages_loop [] (Split out newline) = earlier @ [pkg] @ later \<and>
   ConfigFiles pkg = ps @ [p] @ qs \<and> p \<notin> set qs \<and>
   (\<forall>q \<in> set later. p \<notin> set (ConfigFiles q)) \<and>
   fst (ReadConfigFile (configReader a) w
          (snd (config_loop (configReader a) w
                  (package_loop (configReader a) w
                     (Map.empty, tr @ [Exec (fst (query_command (pkgManager a)))
                                         (snd (query_command (pkgManager a)))])
                     earlier)
                  ps))
          p) = Inr cf \<longrightarrow>
   Configurations (systemInfo (fst (snd (GatherSystemInfo a w tr)))) p = Some cf"
proof
  let ?cr = "configReader a"
  let ?st = "(Map.empty :: string \<rightharpoonup> ConfigFile,
              tr @ [Exec (fst (query_command (pkgManager a))) (snd (query_command (pkgManager a)))])"
  assume h: "cmd_output w (fst (query_command (pkgManager a))) (snd (query_command (pkgManager a))) =
     (out, None) \<and>
   packages_loop [] (Split out newline) = earlier @ [pkg] @ later \<and>
   ConfigFiles pkg = ps @ [p] @ qs \<and> p \<notin> set qs \<and>
   (\<forall>q \<in> set later. p \<notin> set (ConfigFiles q)) \<and>
   fst (ReadConfigFile ?cr w (snd (config_loop ?cr w (package_loop ?cr w ?st earlier) ps)) p) = Inr cf"
  let ?pre = "concat (map ConfigFiles earlier) @ ps"
  let ?post = "qs @ concat (map ConfigFiles later)"
  have paths: "concat (map ConfigFiles (packages_loop [] (Split out newline))) = ?pre @ p # ?post"
    using h by simp
  have notin: "p \<notin> set ?post"
    using h by auto
  have pre: "config_loop ?cr w ?st ?pre = config_loop ?cr w (package_loop ?cr w ?st earlier) ps"
    by (simp only: config_loop_append package_loop_concat)
  have "fst (ReadConfigFile ?cr w (snd (config_loop ?cr w ?st ?pre)) p) = Inr cf"
    using h pre by simp
  with notin have "fst (config_loop ?cr w ?st (?pre @ p # ?post)) p = Some cf"
    by (rule config_loop_last)
  then have "fst (package_loop ?cr w ?st (packages_loop [] (Split out newline))) p = Some cf"
    by (simp only: package_loop_concat paths)
  moreover have "Configurations (systemInfo (fst (snd (GatherSystemInfo a w tr)))) =
      fst (package_loop ?cr w ?st (packages_loop [] (Split out newline)))"
    using h by (simp add: GatherSystemInfo_ok)
  ultimately show "Configurations (systemInfo (fst (snd (GatherSystemInfo a w tr)))) p = Some cf"
    by simp
qed

theorem last_declaring_package_wins_witness:
  "Configurations
     (systemInfo (fst (snd (GatherSystemInfo example_agent shared_path_world
                              [ReadFile ''/etc/os-release'']))))
     ''/etc/foo.conf'' =
   Some \<lparr>Path = ''/etc/foo.conf'', Content = ''new'', Modified = ''2024-01-01 00:00:00 +0000 UTC''\<rparr>"
proof -
  let ?out = "''a'' @ [tab] @ ''1'' @ [tab] @ ''/etc/foo.conf'' @ [newline] @
              ''b'' @ [tab] @ ''2'' @ [tab] @ ''/etc/foo.conf'' @ [newline]"
  let ?a = "\<lparr>Name = ''a'', Version = ''1'', ConfigFiles = [''/etc/foo.conf''], RequiredPackages = []\<rparr>"
  let ?b = "\<lparr>Name = ''b'', Version = ''2'', ConfigFiles = [''/etc/foo.conf''], RequiredPackages = []\<rparr>"
  let ?cf = "\<lparr>Path = ''/etc/foo.conf'', Content = ''new'', Modified = ''2024-01-01 00:00:00 +0000 UTC''\<rparr>"
  have c: "cmd_output shared_path_world (fst (query_command (pkgManager example_agent)))
             (snd (query_command (pkgManager example_agent))) = (?out, None)"
    by (simp add: shared_path_world_def)
  have pk: "packages_loop [] (Split ?out newline) = [?a] @ [?b] @ []"
    using shared_path_packages by simp
  have cfs: "ConfigFiles ?b = [] @ [''/etc/foo.conf''] @ []"
    by simp
  have rd: "fst (ReadConfigFile (configReader example_agent) shared_path_world
          (snd (config_loop (configReader example_agent) shared_path_world
                  (package_loop (configReader example_agent) shared_path_world
                     (Map.empty, [ReadFile ''/etc/os-release''] @
                        [Exec (fst (query_command (pkgManager example_agent)))
                              (snd (query_command (pkgManager example_agent)))])
                     [?a])
                  []))
          ''/etc/foo.conf'') = Inr ?cf"
    by (simp add: ReadConfigFile_def example_agent_def example_Join shared_path_world_def
        example_world_def Let_def)
  show ?thesis
    using last_declaring_package_wins [where w = shared_path_world and a = example_agent and out = ?out
        and earlier = "[?a]" and pkg = ?b and later = "[]" and ps = "[]"
        and p = "''/etc/foo.conf''" and qs = "[]" and tr = "[ReadFile ''/etc/os-release'']"
        and cf = ?cf]
      c pk cfs rd
    by simp
qed

text \<open>
  Claim C10. A line of exactly three tab-separated fields whose third field is empty
  gives a record whose configuration files are the list of one empty string, not the
  empty list. \<^verbatim>\<open>filepath.Join\<close> of the root directory and the empty path is the root
  directory, so when such a line is in the output of the query, the record is among the
  packages of the snapshot and the collector reads \<^verbatim>\<open>/\<close>.
\<close>

theorem empty_third_field_reads_root:
  "tab \<notin> set name \<and> tab \<notin> set version \<longrightarrow>
     packages_loop packages ((name @ [tab] @ version @ [tab]) # lines) =
       packages_loop
         (packages @ [\<lparr>Name = name, Version = version, ConfigFiles = [[]],
                        RequiredPackages = []\<rparr>]) lines \<and>
     Join [''/'', []] = ''/'' \<and>
     (cmd_output w (fst (query_command (pkgManager a))) (snd (query_command (pkgManager a))) =
        (out, None) \<and>
      name @ [tab] @ version @ [tab] \<in> set (Split out newline) \<and>
      configReader a = NewConfigurationReader ''/'' \<longrightarrow>
        \<lparr>Name = name, Version = version, ConfigFiles = [[]], RequiredPackages = []\<rparr>
          \<in> set (Packages (systemInfo (fst (snd (GatherSystemInfo a w tr))))) \<and>
        ReadFile ''/'' \<in> set (snd (snd (GatherSystemInfo a w tr))))"
proof (intro impI conjI)
  let ?line = "name @ [tab] @ version @ [tab]"
  let ?pkg = "\<lparr>Name = name, Version = version, ConfigFiles = [[]], RequiredPackages = []\<rparr>"
  assume nt: "tab \<notin> set name \<and> tab \<notin> set version"
  then have fields: "Split ?line tab = [name, version, []]"
    by (intro Split_three_fields_last_empty) simp_all
  have third: "Split [] space = [[]]"
    by (simp add: Split_no_sep)
  show "packages_loop packages (?line # lines) = packages_loop (packages @ [?pkg]) lines"
    using fields third by (simp add: Let_def)
  show "Join [''/'', []] = ''/''"
    by (rule Join_root_empty)
  assume h: "cmd_output w (fst (query_command (pkgManager a))) (snd (query_command (pkgManager a))) =
        (out, None) \<and>
      ?line \<in> set (Split out newline) \<and> configReader a = NewConfigurationReader ''/''"
  let ?pkgs = "packages_loop [] (Split out newline)"
  let ?st = "(Map.empty :: string \<rightharpoonup> ConfigFile,
              tr @ [Exec (fst (query_command (pkgManager a))) (snd (query_command (pkgManager a)))])"
  have "\<lparr>Name = Split ?line tab ! 0, Version = Split ?line tab ! 1,
          ConfigFiles = (if length (Split ?line tab) > 2 then Split (Split ?line tab ! 2) space else []),
          RequiredPackages = []\<rparr> \<in> set ?pkgs"
    using h fields by (intro packages_loop_member) simp_all
  then have mem: "?pkg \<in> set ?pkgs"
    using fields third by simp
  have g: "GatherSystemInfo a w tr =
     (None,
      a\<lparr>systemInfo := (systemInfo a)
          \<lparr>OSRelease := osRelease (osDetector a), Packages := ?pkgs,
           Configurations := fst (package_loop (configReader a) w ?st ?pkgs)\<rparr>\<rparr>,
      snd (package_loop (configReader a) w ?st ?pkgs))"
    using h by (simp add: GatherSystemInfo_ok)
  show "?pkg \<in> set (Packages (systemInfo (fst (snd (GatherSystemInfo a w tr)))))"
    using mem by (simp add: g)
  have "[] \<in> set (concat (map ConfigFiles ?pkgs))"
    using mem by force
  then have "ReadFile (Join [rootDir (configReader a), []])
      \<in> set (snd (config_loop (configReader a) w ?st (concat (map ConfigFiles ?pkgs))))"
    by (rule config_loop_reads)
  then show "ReadFile ''/'' \<in> set (snd (snd (GatherSystemInfo a w tr)))"
    using h by (simp add: g package_loop_concat NewConfigurationReader_def Join_root_empty)
qed

theorem empty_third_field_reads_root_witness:
  "packages_loop [] [''n'' @ [tab] @ ''v'' @ [tab], []] =
     [\<lparr>Name = ''n'', Version = ''v'', ConfigFiles = [[]], RequiredPackages = []\<rparr>] \<and>
   ReadFile ''/'' \<in> set (snd (snd (GatherSystemInfo example_agent empty_field_world
                                       [ReadFile ''/etc/os-release''])))"
proof -
  have nt: "tab \<notin> set ''n'' \<and> tab \<notin> set ''v''"
    by (simp add: tab_def)
  have c: "cmd_output empty_field_world (fst (query_command (pkgManager example_agent)))
             (snd (query_command (pkgManager example_agent))) =
           (''n'' @ [tab] @ ''v'' @ [tab] @ [newline], None)"
    by (simp add: empty_field_world_def)
  have sp: "Split (''n'' @ [tab] @ ''v'' @ [tab] @ [newline]) newline = [''n'' @ [tab] @ ''v'' @ [tab], []]"
    by code_simp
  then have ln: "''n'' @ [tab] @ ''v'' @ [tab] \<in> set (Split (''n'' @ [tab] @ ''v'' @ [tab] @ [newline]) newline)"
    by simp
  have cr: "configReader example_agent = NewConfigurationReader ''/''"
    by (simp add: example_agent_def NewConfigurationReader_def)
  note t = empty_third_field_reads_root [where name = "''n''" and version = "''v''" and packages = "[]" and lines = "[[]]"
      and w = empty_field_world and a = example_agent
      and out = "''n'' @ [tab] @ ''v'' @ [tab] @ [newline]" and tr = "[ReadFile ''/etc/os-release'']"]
  have "packages_loop [] [''n'' @ [tab] @ ''v'' @ [tab], []] =
     [\<lparr>Name = ''n'', Version = ''v'', ConfigFiles = [[]], RequiredPackages = []\<rparr>]"
    using t nt by simp
  moreover have "ReadFile ''/'' \<in> set (snd (snd (GatherSystemInfo example_agent empty_field_world
                                       [ReadFile ''/etc/os-release''])))"
    using t nt c ln cr by blast
  ultimately show ?thesis by blast
qed

subsection \<open>The fatal failure of the package query\<close>

text \<open>
  Claim C6. When the package query returns an error, \<^verbatim>\<open>GetInstalledPackages\<close> returns
  that error and the nil slice, even if the command had printed something. The run then
  ends with exit code 1: after the descriptor was read and the command was run it only
  prints the failure, and reads no configuration file.
\<close>

theorem query_failure_is_fatal:
  "(cmd_output w (fst (query_command pm)) (snd (query_command pm)) = (out, Some err) \<longrightarrow>
      fst (GetInstalledPackages pm w tr) = ([], Some (''failed to query packages: '' @ err))) \<and>
   (NewAgent w [] = (Inr agent, tr') \<and>
    cmd_output w (fst (query_command (pkgManager agent))) (snd (query_command (pkgManager agent))) =
      (out, Some err) \<longrightarrow>
      main w =
        (1, [ReadFile ''/etc/os-release'',
             Exec (fst (query_command (pkgManager agent))) (snd (query_command (pkgManager agent))),
             Write Stdout
               (''Failed to gather system info: failed to query packages: '' @ err @ [newline])]))"
proof (intro conjI impI)
  assume "cmd_output w (fst (query_command pm)) (snd (query_command pm)) = (out, Some err)"
  then show "fst (GetInstalledPackages pm w tr) = ([], Some (''failed to query packages: '' @ err))"
    by (simp add: GetInstalledPackages_err)
next
  assume h: "NewAgent w [] = (Inr agent, tr') \<and>
    cmd_output w (fst (query_command (pkgManager agent))) (snd (query_command (pkgManager agent))) =
      (out, Some err)"
  then have tr': "tr' = [ReadFile ''/etc/os-release'']"
    using NewAgent_ok(1) by fastforce
  from h have "GatherSystemInfo agent w tr' =
     (Some (''failed to query packages: '' @ err),
      agent\<lparr>systemInfo := (systemInfo agent)\<lparr>OSRelease := osRelease (osDetector agent)\<rparr>\<rparr>,
      tr' @ [Exec (fst (query_command (pkgManager agent))) (snd (query_command (pkgManager agent)))])"
    by (simp add: GatherSystemInfo_err)
  then show "main w =
        (1, [ReadFile ''/etc/os-release'',
             Exec (fst (query_command (pkgManager agent))) (snd (query_command (pkgManager agent))),
             Write Stdout
               (''Failed to gather system info: failed to query packages: '' @ err @ [newline])])"
    using h tr' by (simp add: main_def)
qed

theorem query_failure_is_fatal_witness:
  "fst (GetInstalledPackages \<lparr>pkgType = ''apt''\<rparr> failing_query_world []) =
     ([], Some ''failed to query packages: exit status 1'') \<and>
   main failing_query_world =
     (1, [ReadFile ''/etc/os-release'',
          Exec ''dpkg-query'' [''-W'', ''-f'',
            ''${Package}'' @ [tab] @ ''${Version}'' @ [tab] @ ''${Conffiles}'' @ [newline]],
          Write Stdout
            (''Failed to gather system info: failed to query packages: exit status 1'' @ [newline])])"
proof -
  have c: "cmd_output failing_query_world (fst (query_command pm)) (snd (query_command pm)) =
      (''partial'', Some ''exit status 1'')" for pm
    by (simp add: failing_query_world_def)
  have pm: "pkgManager example_agent = \<lparr>pkgType = ''apt''\<rparr>"
    by (simp add: example_agent_def)
  show ?thesis
    using query_failure_is_fatal [where w = failing_query_world and pm = "\<lparr>pkgType = ''apt''\<rparr>"
        and out = "''partial''" and err = "''exit status 1''" and tr = "[]"
        and agent = example_agent and tr' = "[ReadFile ''/etc/os-release'']"]
      c failing_query_NewAgent example_query pm
    by simp
qed

subsection \<open>Where the warnings go\<close>

text \<open>
  Claim C8 says that the warnings go to a stream other than the one of the JSON
  document. The run in the example world, where \<^verbatim>\<open>/etc/foo2.conf\<close> does not exist, shows
  otherwise: the warning is written with \<^verbatim>\<open>fmt.Printf\<close>, to standard output, and the
  JSON document is printed on standard output next.
\<close>

theorem warning_on_json_stream:
  "main example_world =
     (0, [ReadFile ''/etc/os-release'',
          Exec ''dpkg-query'' [''-W'', ''-f'',
            ''${Package}'' @ [tab] @ ''${Version}'' @ [tab] @ ''${Conffiles}'' @ [newline]],
          ReadFile ''/etc/foo.conf'',
          Stat ''/etc/foo.conf'',
          ReadFile ''/etc/foo2.conf'',
          Write Stdout (''Warning: couldn'' @ [CHR 0x27] @ ''t read config /etc/foo2.conf: '' @
            ''failed to read config file /etc/foo2.conf: no such file or directory'' @ [newline]),
          Write Stdout (''{}'' @ [newline])])"
  by (simp add: example_main example_trace_def)

text \<open>
  Claim C8, amended. Everything the program writes, the warnings for skipped
  configuration files as well as the JSON document, goes to standard output. The
  warnings do not affect the exit code: when the descriptor is read, the package query
  succeeds and the snapshot is marshalled, the exit code is 0 and the last thing written
  is the JSON document, whatever the reads of the configuration files did.
\<close>

theorem all_output_on_stdout:
  "(Write s msg \<in> set (snd (main w)) \<longrightarrow> s = Stdout) \<and>
   (\<exists>text. warning p err = Write Stdout text) \<and>
   (NewAgent w [] = (Inr agent, tr') \<and>
    cmd_output w (fst (query_command (pkgManager agent))) (snd (query_command (pkgManager agent))) =
      (out, None) \<and>
    MarshalIndent w (systemInfo (fst (snd (GatherSystemInfo agent w tr')))) = Inr jsonData \<longrightarrow>
      fst (main w) = 0 \<and>
      (\<exists>evs. snd (main w) = evs @ [Write Stdout (jsonData @ [newline])]))"
proof (intro conjI impI)
  assume "Write s msg \<in> set (snd (main w))"
  then show "s = Stdout"
    by (rule main_writes)
next
  show "\<exists>text. warning p err = Write Stdout text"
    by (simp add: warning_def)
next
  assume h: "NewAgent w [] = (Inr agent, tr') \<and>
    cmd_output w (fst (query_command (pkgManager agent))) (snd (query_command (pkgManager agent))) =
      (out, None) \<and>
    MarshalIndent w (systemInfo (fst (snd (GatherSystemInfo agent w tr')))) = Inr jsonData"
  obtain agent1 tr2 where g: "GatherSystemInfo agent w tr' = (None, agent1, tr2)"
    using h GatherSystemInfo_ok [of w agent out tr'] by simp
  then have m: "main w = (0, tr2 @ [Write Stdout (jsonData @ [newline])])"
    using h by (simp add: main_def)
  show "fst (main w) = 0"
    by (simp add: m)
  show "\<exists>evs. snd (main w) = evs @ [Write Stdout (jsonData @ [newline])]"
    by (simp add: m)
qed

theorem all_output_on_stdout_witness:
  "fst (main example_world) = 0 \<and>
   (\<exists>evs. snd (main example_world) = evs @ [Write Stdout (''{}'' @ [newline])])"
proof -
  have "MarshalIndent example_world
          (systemInfo (fst (snd (GatherSystemInfo example_agent example_world
                                   [ReadFile ''/etc/os-release''])))) = Inr ''{}''"
    by (simp add: example_world_def)
  then show ?thesis
    using all_output_on_stdout [where w = example_world and agent = example_agent
        and tr' = "[ReadFile ''/etc/os-release'']" and out = example_output
        and jsonData = "''{}''"]
      example_NewAgent example_cmd
    by blast
qed

subsection \<open>The run is a function of what it reads\<close>

text \<open>
  Claim C9. Two runs give the same exit code, the same trace and so the same bytes on
  standard output when the descriptor file is the same, the package query commands
  return the same, every read and stat of a declared configuration file returns the same
  at the same moment of both runs (so the modification-time strings are the same), and
  the marshalling is the same function. Nothing else of the world matters.
\<close>

theorem main_depends_only_on_inputs:
  "read_file w 0 ''/etc/os-release'' = read_file w' 0 ''/etc/os-release'' \<and>
   (\<forall>pm. cmd_output w (fst (query_command pm)) (snd (query_command pm)) =
          cmd_output w' (fst (query_command pm)) (snd (query_command pm))) \<and>
   (\<forall>pm out e pkg p t.
      cmd_output w (fst (query_command pm)) (snd (query_command pm)) = (out, e) \<and>
      pkg \<in> set (packages_loop [] (Split out newline)) \<and> p \<in> set (ConfigFiles pkg) \<longrightarrow>
      read_file w t (Join [''/'', p]) = read_file w' t (Join [''/'', p]) \<and>
      stat_modtime w t (Join [''/'', p]) = stat_modtime w' t (Join [''/'', p])) \<and>
   MarshalIndent w = MarshalIndent w' \<longrightarrow>
   main w = main w'"
proof
  assume h: "read_file w 0 ''/etc/os-release'' = read_file w' 0 ''/etc/os-release'' \<and>
   (\<forall>pm. cmd_output w (fst (query_command pm)) (snd (query_command pm)) =
          cmd_output w' (fst (query_command pm)) (snd (query_command pm))) \<and>
   (\<forall>pm out e pkg p t.
      cmd_output w (fst (query_command pm)) (snd (query_command pm)) = (out, e) \<and>
      pkg \<in> set (packages_loop [] (Split out newline)) \<and> p \<in> set (ConfigFiles pkg) \<longrightarrow>
      read_file w t (Join [''/'', p]) = read_file w' t (Join [''/'', p]) \<and>
      stat_modtime w t (Join [''/'', p]) = stat_modtime w' t (Join [''/'', p])) \<and>
   MarshalIndent w = MarshalIndent w'"
  then have agent: "NewAgent w [] = NewAgent w' []"
    by (intro NewAgent_cong) simp
  have gather: "GatherSystemInfo a w tr = GatherSystemInfo a w' tr"
    if "NewAgent w [] = (Inr a, tr)" for a tr
  proof (rule GatherSystemInfo_cong)
    show "cmd_output w (fst (query_command (pkgManager a))) (snd (query_command (pkgManager a))) =
          cmd_output w' (fst (query_command (pkgManager a))) (snd (query_command (pkgManager a)))"
      using h by blast
  next
    fix outp e pkg p t
    assume "cmd_output w (fst (query_command (pkgManager a))) (snd (query_command (pkgManager a))) = (outp, e)"
      and "pkg \<in> set (packages_loop [] (Split outp newline))" and "p \<in> set (ConfigFiles pkg)"
    moreover have "rootDir (configReader a) = ''/''"
      using NewAgent_ok(2) [OF that] by simp
    ultimately show "read_file w t (Join [rootDir (configReader a), p]) =
          read_file w' t (Join [rootDir (configReader a), p]) \<and>
        stat_modtime w t (Join [rootDir (configReader a), p]) =
          stat_modtime w' t (Join [rootDir (configReader a), p])"
      using h by metis
  qed
  show "main w = main w'"
  proof (cases "NewAgent w []")
    case (Pair r tr)
    show ?thesis
    proof (cases r)
      case (Inl err)
      then show ?thesis
        using Pair agent by (simp add: main_def)
    next
      case (Inr a)
      then have "GatherSystemInfo a w tr = GatherSystemInfo a w' tr"
        using Pair gather by simp
      moreover have "MarshalIndent w = MarshalIndent w'"
        using h by simp
      ultimately show ?thesis
        using Pair Inr agent by (simp add: main_def split: prod.splits option.splits)
    qed
  qed
qed

theorem main_depends_only_on_inputs_witness:
  "main other_files_world = (0, example_trace @ [Write Stdout (''{}'' @ [newline])])"
proof -
  have h1: "read_file example_world 0 ''/etc/os-release'' =
            read_file other_files_world 0 ''/etc/os-release''"
    by (simp add: other_files_world_def example_world_def)
  have h2: "\<forall>pm. cmd_output example_world (fst (query_command pm)) (snd (query_command pm)) =
          cmd_output other_files_world (fst (query_command pm)) (snd (query_command pm))"
    by (simp add: other_files_world_def example_world_def query_command_def)
  have files: "read_file example_world t (Join [''/'', p]) = read_file other_files_world t (Join [''/'', p]) \<and>
      stat_modtime example_world t (Join [''/'', p]) = stat_modtime other_files_world t (Join [''/'', p])"
    if "p = ''/etc/foo.conf'' \<or> p = ''/etc/foo2.conf''" for p t
    using that by (auto simp: example_Join other_files_world_def example_world_def)
  have h3: "\<forall>pm out e pkg p t.
      cmd_output example_world (fst (query_command pm)) (snd (query_command pm)) = (out, e) \<and>
      pkg \<in> set (packages_loop [] (Split out newline)) \<and> p \<in> set (ConfigFiles pkg) \<longrightarrow>
      read_file example_world t (Join [''/'', p]) = read_file other_files_world t (Join [''/'', p]) \<and>
      stat_modtime example_world t (Join [''/'', p]) = stat_modtime other_files_world t (Join [''/'', p])"
  proof (intro allI impI)
    fix pm out e pkg p t
    assume a: "cmd_output example_world (fst (query_command pm)) (snd (query_command pm)) = (out, e) \<and>
      pkg \<in> set (packages_loop [] (Split out newline)) \<and> p \<in> set (ConfigFiles pkg)"
    then have "out = example_output"
      by (simp add: example_world_def)
    then have "p = ''/etc/foo.conf'' \<or> p = ''/etc/foo2.conf''"
      using a by (auto simp: example_packages)
    then show "read_file example_world t (Join [''/'', p]) = read_file other_files_world t (Join [''/'', p]) \<and>
      stat_modtime example_world t (Join [''/'', p]) = stat_modtime other_files_world t (Join [''/'', p])"
      by (rule files)
  qed
  have h4: "MarshalIndent example_world = MarshalIndent other_files_world"
    by (simp add: other_files_world_def)
  have "main example_world = main other_files_world"
    using main_depends_only_on_inputs [where w = example_world and w' = other_files_world] h1 h2 h3 h4 by blast
  then show ?thesis
    by (simp add: example_main)
qed

end
